theory Spec2Isabelle
  imports Main "HOL-Library.Word"
begin

section \<open>Shared Go notions\<close>

text \<open>
  A Go \<^verbatim>\<open>error\<close> value is represented by its message. A run-time panic is a value of
  its own: a function of the model that can panic returns a sum whose left side says how
  the call ended without a result.
\<close>

type_synonym go_error = string

datatype panic = IndexOutOfRange | CloseOfClosedChannel | NilDereference | NegativeWaitGroupCounter

datatype failure = ReturnedError go_error | RuntimePanic panic

text \<open>Indexing a slice: Go panics when the index is not below the length.\<close>

definition index :: "'a list \<Rightarrow> nat \<Rightarrow> panic + 'a" where
  "index xs i = (if i < length xs then Inr (xs ! i) else Inl IndexOutOfRange)"

text \<open>
  A channel on which nothing is ever sent (\<^verbatim>\<open>shutdownChan\<close>) is either still open or
  closed. \<^verbatim>\<open>close\<close> panics on a closed channel; a receive is ready exactly when the
  channel is closed.
\<close>

datatype chan = Open | Closed

definition close_chan :: "chan \<Rightarrow> panic + chan" where
  "close_chan c = (case c of Open \<Rightarrow> Inr Closed | Closed \<Rightarrow> Inl CloseOfClosedChannel)"

text \<open>\<^verbatim>\<open>time.Duration\<close> is an \<^verbatim>\<open>int64\<close> count of nanoseconds.\<close>

type_synonym duration = "64 word"

definition Millisecond :: duration where
  "Millisecond = 1000000"

definition Second :: duration where
  "Second = 1000000000"

text \<open>\<^verbatim>\<open>time.Time\<close>: a reading of the clock, in nanoseconds since the epoch.\<close>

type_synonym time = int

section \<open>Package message: \<^verbatim>\<open>ParseDelivery\<close>\<close>

record mail_Address =
  Name :: string
  Address :: string

record Metadata =
  Mailbox :: string
  ID :: string
  From :: mail_Address
  To :: "mail_Address list"
  Date :: time
  Subject :: string
  Size :: "64 word"
  Seen :: bool

text \<open>
  \<^verbatim>\<open>enmime.Envelope\<close> belongs to a library outside the repository. \<^verbatim>\<open>ParseDelivery\<close>
  uses two of its methods, so an envelope is what these two methods answer:
  \<^verbatim>\<open>AddressList(key)\<close> gives a slice of addresses and an error (\<open>None\<close> for \<^verbatim>\<open>nil\<close>),
  \<^verbatim>\<open>GetHeader(key)\<close> gives a string.
\<close>

record Envelope =
  AddressList :: "string \<Rightarrow> mail_Address list \<times> go_error option"
  GetHeader :: "string \<Rightarrow> string"

text \<open>
  The delivery keeps the \<^verbatim>\<open>io.Reader\<close> it was parsed from. The reader is an object
  with state, of type \<open>'r\<close> here; \<^verbatim>\<open>enmime.ReadEnvelope\<close> reads from it, so it gives
  back the reader's new state together with its answer.
\<close>

record 'r Delivery =
  Meta :: Metadata
  Reader :: 'r

text \<open>
  \<^verbatim>\<open>
  func ParseDelivery(reader io.Reader, mailbox string) (*Delivery, error) {
      env, err := enmime.ReadEnvelope(reader)
      if err != nil {
          return nil, err
      }
      fromaddr, _ := env.AddressList("From")
      toaddr, _ := env.AddressList("To")
      return &Delivery{
          Meta: Metadata{
              Mailbox: mailbox,
              From:    fromaddr[0],
              To:      toaddr,
              Date:    time.Now(),
              Subject: env.GetHeader("Subject"),
          },
          Reader: reader,
      }, nil
  }
  \<close>
  \<open>ReadEnvelope\<close> (the library call) and \<open>now\<close> (what \<^verbatim>\<open>time.Now()\<close> answers) are
  parameters. The fields the literal leaves out are Go's zero values.
\<close>

definition ParseDelivery ::
  "('r \<Rightarrow> (go_error + Envelope) \<times> 'r) \<Rightarrow> time \<Rightarrow> 'r \<Rightarrow> string \<Rightarrow> failure + 'r Delivery" where
  "ParseDelivery ReadEnvelope now reader mailbox =
     (let (res, reader') = ReadEnvelope reader in
      case res of
        Inl err \<Rightarrow> Inl (ReturnedError err)
      | Inr env \<Rightarrow>
          (let (fromaddr, err1) = AddressList env ''From'';
               (toaddr, err2) = AddressList env ''To''
           in case index fromaddr 0 of
                Inl p \<Rightarrow> Inl (RuntimePanic p)
              | Inr from0 \<Rightarrow>
                  Inr \<lparr>Meta = \<lparr>Mailbox = mailbox, ID = [], From = from0, To = toaddr,
                                 Date = now, Subject = GetHeader env ''Subject'',
                                 Size = 0, Seen = False\<rparr>,
                       Reader = reader'\<rparr>))"

section \<open>Package main: \<^verbatim>\<open>ServerTuple\<close>\<close>

text \<open>
  \<^verbatim>\<open>
  type ServerTuple struct {
      v4 server.IServer
      v6 server.IServer
  }
  \<close>
  A member is an interface value: \<^verbatim>\<open>nil\<close> (\<open>None\<close>) or a server (\<open>Some s\<close>). The
  members are only ever assigned from \<^verbatim>\<open>pop3.New\<close> and \<^verbatim>\<open>smtp.NewServer\<close>, which
  return the address of a fresh struct.
\<close>

record 's ServerTuple =
  v4 :: "'s option"
  v6 :: "'s option"

text \<open>
  Calling \<^verbatim>\<open>Drain()\<close> through an interface value: a \<^verbatim>\<open>nil\<close> interface panics, a
  server is drained. The result lists the servers whose \<^verbatim>\<open>Drain\<close> ran, in order.
\<close>

definition IServer_Drain :: "'s option \<Rightarrow> panic + 's list" where
  "IServer_Drain i = (case i of None \<Rightarrow> Inl NilDereference | Some s \<Rightarrow> Inr [s])"

text \<open>One statement after another: the first panic ends the run.\<close>

definition and_then :: "panic + 'a list \<Rightarrow> panic + 'a list \<Rightarrow> panic + 'a list" where
  "and_then a b =
     (case a of
        Inl p \<Rightarrow> Inl p
      | Inr t \<Rightarrow> (case b of Inl p \<Rightarrow> Inl p | Inr u \<Rightarrow> Inr (t @ u)))"

text \<open>
  \<^verbatim>\<open>
  func (st *ServerTuple) Drain() {
      if st.v4 != nil {
          st.v4.Drain()
      }
      if st.v6 != nil {
          st.v6.Drain()
      }
  }
  \<close>
\<close>

definition ServerTuple_Drain :: "'s ServerTuple \<Rightarrow> panic + 's list" where
  "ServerTuple_Drain st =
     and_then (if v4 st \<noteq> None then IServer_Drain (v4 st) else Inr [])
              (if v6 st \<noteq> None then IServer_Drain (v6 st) else Inr [])"

section \<open>Package pop3: the listener\<close>

text \<open>
  What the server's functions do to the world, in the order they do it: log lines,
  sleeps, wait-group increments, goroutines started, the close of the shutdown channel.
\<close>

datatype 'c pop3_effect =
    LogResolveFailed go_error
  | LogListening
  | LogListenFailed go_error
  | GoServe
  | LogShutdownRequested
  | ListenerClose
  | LogCloseFailed go_error
  | LogAcceptRetry duration
  | TimeSleep duration
  | WgAdd int
  | GoStartSession "64 word" 'c
  | CloseGlobalShutdown
  | LogDrained

text \<open>
  The \<^verbatim>\<open>Server\<close> struct without \<^verbatim>\<open>config\<close> and \<^verbatim>\<open>store\<close>, which the functions
  below never read. \<open>globalShutdown\<close> is the state of the shared channel and \<open>wg\<close> the
  counter of the \<^verbatim>\<open>sync.WaitGroup\<close>.
\<close>

record 'l Server =
  address :: string
  addressType :: string
  listener :: "'l option"
  globalShutdown :: chan
  wg :: int

text \<open>\<^verbatim>\<open>pop3.New\<close>: no listener yet, a fresh wait-group.\<close>

definition New :: "string \<Rightarrow> string \<Rightarrow> chan \<Rightarrow> 'l Server" where
  "New addr addrType shutdownChan =
     \<lparr>address = addr, addressType = addrType, listener = None,
      globalShutdown = shutdownChan, wg = 0\<rparr>"

text \<open>
  \<^verbatim>\<open>
  func (s *Server) emergencyShutdown() {
      select {
      case _ = <-s.globalShutdown:
      default:
          close(s.globalShutdown)
      }
  }
  \<close>
  The method touches nothing but the channel, which \<^verbatim>\<open>main\<close> and the other listeners
  share: it is given the channel's state and returns the new one. The receive is ready
  when the channel is closed; otherwise the default branch runs.
\<close>

definition emergencyShutdown :: "chan \<Rightarrow> panic + (chan \<times> 'c pop3_effect list)" where
  "emergencyShutdown c =
     (case c of
        Closed \<Rightarrow> Inr (c, [])
      | Open \<Rightarrow>
          (case close_chan c of
             Inl p \<Rightarrow> Inl p
           | Inr c' \<Rightarrow> Inr (c', [CloseGlobalShutdown])))"

text \<open>
  The error of \<^verbatim>\<open>Accept\<close>: either it implements \<^verbatim>\<open>net.Error\<close>, and then
  \<^verbatim>\<open>Temporary()\<close> answers, or it does not.
\<close>

datatype accept_error = NetError bool | PlainError

fun is_temporary :: "accept_error \<Rightarrow> bool" where
  "is_temporary (NetError t) = t"
| "is_temporary PlainError = False"

text \<open>
  Lines 75 to 82 of the listener, the new value of \<^verbatim>\<open>tempDelay\<close>:
  \<^verbatim>\<open>
  if tempDelay == 0 {
      tempDelay = 5 * time.Millisecond
  } else {
      tempDelay *= 2
  }
  if max := 1 * time.Second; tempDelay > max {
      tempDelay = max
  }
  \<close>
  The multiplication wraps and the comparison is signed, as on \<^verbatim>\<open>int64\<close>.
\<close>

definition next_tempDelay :: "duration \<Rightarrow> duration" where
  "next_tempDelay tempDelay =
     (let d = (if tempDelay = 0 then 5 * Millisecond else tempDelay * 2);
          max = 1 * Second
      in if max <s d then max else d)"

text \<open>
  The variables of \<^verbatim>\<open>serve\<close>: its locals \<^verbatim>\<open>tempDelay\<close> and \<^verbatim>\<open>sid\<close> (a Go
  \<^verbatim>\<open>int\<close>, 64 bits wide) and the server.
\<close>

record 'l serve_frame =
  tempDelay :: duration
  sid :: "64 word"
  srv :: "'l Server"

datatype loop_status = Continue | Return

text \<open>
  One pass through the body of the accept loop. Its input is what \<^verbatim>\<open>Accept\<close> answered
  and whether \<^verbatim>\<open>ctx.Done()\<close> is closed when the select of the permanent branch looks.
  The result says whether the loop goes on, and gives the variables and the effects of
  the pass.
\<close>

definition serve_iter ::
  "(accept_error + 'c) \<times> bool \<Rightarrow> 'l serve_frame \<Rightarrow>
     panic + (loop_status \<times> 'l serve_frame \<times> 'c pop3_effect list)" where
  "serve_iter inp fr =
     (case fst inp of
        Inl err \<Rightarrow>
          if is_temporary err then
            (let d = next_tempDelay (tempDelay fr)
             in Inr (Continue, fr\<lparr>tempDelay := d\<rparr>, [LogAcceptRetry d, TimeSleep d]))
          else if snd inp then Inr (Return, fr, [])
          else
            (case emergencyShutdown (globalShutdown (srv fr)) of
               Inl p \<Rightarrow> Inl p
             | Inr (c, effs) \<Rightarrow> Inr (Return, fr\<lparr>srv := (srv fr)\<lparr>globalShutdown := c\<rparr>\<rparr>, effs))
      | Inr conn \<Rightarrow>
          Inr (Continue,
               fr\<lparr>tempDelay := 0, srv := (srv fr)\<lparr>wg := wg (srv fr) + 1\<rparr>\<rparr>,
               [WgAdd 1, GoStartSession (sid fr) conn]))"

text \<open>
  The loop \<^verbatim>\<open>for sid := 1; ; sid++\<close> over the answers of \<^verbatim>\<open>Accept\<close>. It only ends by
  returning; when the answers given are used up it is blocked in \<^verbatim>\<open>Accept\<close>.
\<close>

datatype run_status = Returned | BlockedInAccept

fun serve_loop ::
  "((accept_error + 'c) \<times> bool) list \<Rightarrow> 'l serve_frame \<Rightarrow> 'c pop3_effect list \<Rightarrow>
     panic + (run_status \<times> 'l serve_frame \<times> 'c pop3_effect list)" where
  "serve_loop [] fr tr = Inr (BlockedInAccept, fr, tr)"
| "serve_loop (inp # inps) fr tr =
     (case serve_iter inp fr of
        Inl p \<Rightarrow> Inl p
      | Inr (Return, fr', effs) \<Rightarrow> Inr (Returned, fr', tr @ effs)
      | Inr (Continue, fr', effs) \<Rightarrow> serve_loop inps (fr'\<lparr>sid := sid fr' + 1\<rparr>) (tr @ effs))"

definition serve ::
  "((accept_error + 'c) \<times> bool) list \<Rightarrow> 'l Server \<Rightarrow>
     panic + (run_status \<times> 'l serve_frame \<times> 'c pop3_effect list)" where
  "serve inps s = serve_loop inps \<lparr>tempDelay = 0, sid = 1, srv = s\<rparr> []"

text \<open>
  \<^verbatim>\<open>Start\<close> up to the point where it waits for \<^verbatim>\<open>ctx.Done()\<close>. The two calls into
  package \<^verbatim>\<open>net\<close> are parameters. When either fails, the server logs, calls
  \<^verbatim>\<open>emergencyShutdown\<close> and returns; otherwise it starts \<^verbatim>\<open>serve\<close> and waits.
\<close>

datatype start_status = StartReturned | StartAwaitsCtx

definition Start ::
  "(string \<Rightarrow> string \<Rightarrow> go_error + 'a) \<Rightarrow> ('a \<Rightarrow> go_error + 'l) \<Rightarrow> 'l Server \<Rightarrow>
     panic + (start_status \<times> 'l Server \<times> 'c pop3_effect list)" where
  "Start ResolveTCPAddr ListenTCP s =
     (case ResolveTCPAddr (addressType s) (address s) of
        Inl err \<Rightarrow>
          (case emergencyShutdown (globalShutdown s) of
             Inl p \<Rightarrow> Inl p
           | Inr (c, effs) \<Rightarrow>
               Inr (StartReturned, s\<lparr>globalShutdown := c\<rparr>, LogResolveFailed err # effs))
      | Inr addr \<Rightarrow>
          (case ListenTCP addr of
             Inl err \<Rightarrow>
               (case emergencyShutdown (globalShutdown s) of
                  Inl p \<Rightarrow> Inl p
                | Inr (c, effs) \<Rightarrow>
                    Inr (StartReturned, s\<lparr>listener := None, globalShutdown := c\<rparr>,
                         [LogListening, LogListenFailed err] @ effs))
           | Inr l \<Rightarrow> Inr (StartAwaitsCtx, s\<lparr>listener := Some l\<rparr>, [LogListening, GoServe])))"

text \<open>
  The rest of \<^verbatim>\<open>Start\<close>, once \<^verbatim>\<open>ctx.Done()\<close> is closed: it closes the listener and
  logs a failure to do so. \<open>close_err\<close> is what \<^verbatim>\<open>s.listener.Close()\<close> answers.
\<close>

definition Start_after_ctx_done :: "go_error option \<Rightarrow> 'c pop3_effect list" where
  "Start_after_ctx_done close_err =
     [LogShutdownRequested, ListenerClose] @
     (case close_err of None \<Rightarrow> [] | Some err \<Rightarrow> [LogCloseFailed err])"

text \<open>
  \<^verbatim>\<open>
  func (s *Server) Drain() {
      s.wg.Wait()
      log.Debug().Str("module", "pop3").Str("phase", "shutdown").Msg("POP3 connections have drained")
  }
  \<close>
  \<^verbatim>\<open>Wait\<close> returns when the counter of the wait-group is zero and blocks otherwise. The
  model gives the effects of \<^verbatim>\<open>Drain\<close> when it returns at the counter it is given, and
  \<open>None\<close> when it is still blocked there.
\<close>

definition Drain :: "'l Server \<Rightarrow> 'c pop3_effect list option" where
  "Drain s = (if wg s = 0 then Some [LogDrained] else None)"

subsection \<open>The listener among its sessions\<close>

text \<open>\<^verbatim>\<open>wg.Done()\<close> is \<^verbatim>\<open>wg.Add(-1)\<close>, which panics when the counter falls below zero.\<close>

definition WaitGroup_Done :: "int \<Rightarrow> panic + int" where
  "WaitGroup_Done n = (if n - 1 < 0 then Inl NegativeWaitGroupCounter else Inr (n - 1))"

text \<open>
  Modelled from the spec: \<^verbatim>\<open>startSession\<close>, the body of a session goroutine, is not
  among the sources. The spec says of it: ``each session decrements on exit''. The end of
  a session is therefore one \<^verbatim>\<open>Done\<close> on the listener's wait-group.
\<close>

definition session_exit :: "'l Server \<Rightarrow> panic + 'l Server" where
  "session_exit s =
     (case WaitGroup_Done (wg s) of Inl p \<Rightarrow> Inl p | Inr n \<Rightarrow> Inr (s\<lparr>wg := n\<rparr>))"

text \<open>The session goroutines that a list of effects starts.\<close>

fun started :: "'c pop3_effect list \<Rightarrow> (64 word \<times> 'c) list" where
  "started [] = []"
| "started (GoStartSession i c # effs) = (i, c) # started effs"
| "started (e # effs) = started effs"

text \<open>
  The goroutines run interleaved. A state of the listener holds the variables of
  \<^verbatim>\<open>serve\<close>, whether \<^verbatim>\<open>serve\<close> is still in its loop, the sessions that were started
  and have not ended, and how far a call of \<^verbatim>\<open>Drain\<close> has come. An event is a pass
  of the accept loop, the end of a running session, the call of \<^verbatim>\<open>Drain\<close> or its
  return. \<open>None\<close> says that the event cannot happen in the state.
\<close>

datatype drain_state = DrainNotCalled | DrainWaiting | DrainReturned

record ('l, 'c) listener_sys =
  frame :: "'l serve_frame"
  serving :: bool
  sessions :: "(64 word \<times> 'c) list"
  drain :: drain_state

datatype 'c sys_event =
    AcceptAnswers "(accept_error + 'c) \<times> bool"
  | SessionExits "64 word" 'c
  | DrainCalled
  | DrainReturns

fun sys_step ::
  "'c sys_event \<Rightarrow> ('l, 'c) listener_sys \<Rightarrow> (panic + ('l, 'c) listener_sys) option" where
  "sys_step (AcceptAnswers inp) y =
     (if serving y then
        (case serve_iter inp (frame y) of
           Inl p \<Rightarrow> Some (Inl p)
         | Inr (Continue, fr', effs) \<Rightarrow>
             Some (Inr (y\<lparr>frame := fr'\<lparr>sid := sid fr' + 1\<rparr>,
                          sessions := sessions y @ started effs\<rparr>))
         | Inr (Return, fr', effs) \<Rightarrow>
             Some (Inr (y\<lparr>frame := fr', serving := False,
                          sessions := sessions y @ started effs\<rparr>)))
      else None)"
| "sys_step (SessionExits i c) y =
     (if (i, c) \<in> set (sessions y) then
        (case session_exit (srv (frame y)) of
           Inl p \<Rightarrow> Some (Inl p)
         | Inr s' \<Rightarrow>
             Some (Inr (y\<lparr>frame := (frame y)\<lparr>srv := s'\<rparr>,
                          sessions := remove1 (i, c) (sessions y)\<rparr>)))
      else None)"
| "sys_step DrainCalled y =
     (if drain y = DrainNotCalled then Some (Inr (y\<lparr>drain := DrainWaiting\<rparr>)) else None)"
| "sys_step DrainReturns y =
     (if drain y = DrainWaiting then
        (case (Drain (srv (frame y)) :: 'c pop3_effect list option) of
           None \<Rightarrow> None
         | Some effs \<Rightarrow> Some (Inr (y\<lparr>drain := DrainReturned\<rparr>)))
      else None)"

fun sys_run ::
  "'c sys_event list \<Rightarrow> ('l, 'c) listener_sys \<Rightarrow> (panic + ('l, 'c) listener_sys) option" where
  "sys_run [] y = Some (Inr y)"
| "sys_run (e # es) y =
     (case sys_step e y of
        None \<Rightarrow> None
      | Some (Inl p) \<Rightarrow> Some (Inl p)
      | Some (Inr y') \<Rightarrow> sys_run es y')"

text \<open>The listener as \<^verbatim>\<open>main\<close> makes it: \<^verbatim>\<open>pop3.New\<close>, then \<^verbatim>\<open>serve\<close> at its first pass.\<close>

definition sys_init :: "string \<Rightarrow> string \<Rightarrow> chan \<Rightarrow> ('l, 'c) listener_sys" where
  "sys_init addr addrType shutdownChan =
     \<lparr>frame = \<lparr>tempDelay = 0, sid = 1, srv = New addr addrType shutdownChan\<rparr>,
      serving = True, sessions = [], drain = DrainNotCalled\<rparr>"

section \<open>Package main: signals and shutdown\<close>

text \<open>
  \<^verbatim>\<open>signal.Notify\<close> asks for \<^verbatim>\<open>SIGTERM\<close> and \<^verbatim>\<open>SIGINT\<close>; the switch of the signal
  loop has no default, so any other value would be dropped.
\<close>

datatype signal = SIGINT | SIGTERM | OtherSignal

datatype 's main_effect =
    LogShutdownSignal signal
  | CloseShutdownChan
  | RootCancel
  | GoTimedExit string
  | DrainServer 's
  | RetentionJoin
  | OsRemove string
  | LogRemoveFailed string go_error
  | CloseLog
  | SleepFor duration
  | LogForcedExit
  | OsExit int

text \<open>
  \<^verbatim>\<open>
  func removePIDFile(pidfile string) {
      if pidfile != "" {
          if err := os.Remove(pidfile); err != nil {
              log.Error()...Msg("Failed to remove pidfile")
          }
      }
  }
  \<close>
  \<open>os_Remove\<close> is what \<^verbatim>\<open>os.Remove\<close> answers.
\<close>

definition removePIDFile :: "(string \<Rightarrow> go_error option) \<Rightarrow> string \<Rightarrow> 's main_effect list" where
  "removePIDFile os_Remove pidfile =
     (if pidfile \<noteq> [] then
        OsRemove pidfile #
        (case os_Remove pidfile of None \<Rightarrow> [] | Some err \<Rightarrow> [LogRemoveFailed pidfile err])
      else [])"

text \<open>
  \<^verbatim>\<open>
  func timedExit(pidfile string) {
      time.Sleep(15 * time.Second)
      removePIDFile(pidfile)
      log.Error().Str("phase", "shutdown").Msg("Clean shutdown took too long, forcing exit")
      os.Exit(0)
  }
  \<close>
\<close>

definition timedExit :: "(string \<Rightarrow> go_error option) \<Rightarrow> string \<Rightarrow> 's main_effect list" where
  "timedExit os_Remove pidfile =
     [SleepFor (15 * Second)] @ removePIDFile os_Remove pidfile @ [LogForcedExit, OsExit 0]"

text \<open>
  The signal loop:
  \<^verbatim>\<open>
  signalLoop:
      for {
          select {
          case sig := <-sigChan:
              switch sig {
              case syscall.SIGINT:
                  log.Info()...
                  close(shutdownChan)
              case syscall.SIGTERM:
                  log.Info()...
                  close(shutdownChan)
              }
          case <-shutdownChan:
              rootCancel()
              break signalLoop
          }
      }
  \<close>
  When several cases of a select are ready, Go takes any of them. A run of the loop is
  therefore driven by a list of steps: the select takes a signal from \<^verbatim>\<open>sigChan\<close>, or
  it takes the receive from \<^verbatim>\<open>shutdownChan\<close> (ready only when that channel is closed),
  or, between two passes, a listener goroutine runs \<^verbatim>\<open>emergencyShutdown\<close> on the shared
  channel. The loop is left, or it waits in the select when the steps are used up, or
  the process panics, or the step asked for is not ready.
\<close>

datatype main_step = ReceiveSignal signal | ReceiveShutdown | ListenerEmergencyShutdown

datatype loop_end = LoopLeft | LoopWaiting | LoopPanicked panic | StepNotReady

fun signalLoop ::
  "main_step list \<Rightarrow> chan \<Rightarrow> 's main_effect list \<Rightarrow> loop_end \<times> chan \<times> 's main_effect list" where
  "signalLoop [] c tr = (LoopWaiting, c, tr)"
| "signalLoop (ReceiveSignal SIGINT # steps) c tr =
     (case close_chan c of
        Inl p \<Rightarrow> (LoopPanicked p, c, tr @ [LogShutdownSignal SIGINT])
      | Inr c' \<Rightarrow> signalLoop steps c' (tr @ [LogShutdownSignal SIGINT, CloseShutdownChan]))"
| "signalLoop (ReceiveSignal SIGTERM # steps) c tr =
     (case close_chan c of
        Inl p \<Rightarrow> (LoopPanicked p, c, tr @ [LogShutdownSignal SIGTERM])
      | Inr c' \<Rightarrow> signalLoop steps c' (tr @ [LogShutdownSignal SIGTERM, CloseShutdownChan]))"
| "signalLoop (ReceiveSignal OtherSignal # steps) c tr = signalLoop steps c tr"
| "signalLoop (ReceiveShutdown # steps) c tr =
     (case c of
        Closed \<Rightarrow> (LoopLeft, c, tr @ [RootCancel])
      | Open \<Rightarrow> (StepNotReady, c, tr))"
| "signalLoop (ListenerEmergencyShutdown # steps) c tr =
     (case (emergencyShutdown c :: panic + (chan \<times> unit pop3_effect list)) of
        Inl p \<Rightarrow> (LoopPanicked p, c, tr)
      | Inr (c', effs) \<Rightarrow> signalLoop steps c' tr)"

text \<open>
  What \<^verbatim>\<open>main\<close> does after the loop:
  \<^verbatim>\<open>
  go timedExit(*pidfile)
  smtpServerTuple.Drain()
  pop3ServerTuple.Drain()

  retentionScanner.Join()
  removePIDFile(*pidfile)
  closeLog()
  \<close>
\<close>

definition drain_tuple :: "'s ServerTuple \<Rightarrow> panic + 's main_effect list" where
  "drain_tuple st = map_sum id (map DrainServer) (ServerTuple_Drain st)"

definition main_shutdown ::
  "(string \<Rightarrow> go_error option) \<Rightarrow> string \<Rightarrow> 's ServerTuple \<Rightarrow> 's ServerTuple \<Rightarrow>
     panic + 's main_effect list" where
  "main_shutdown os_Remove pidfile smtpServerTuple pop3ServerTuple =
     and_then (Inr [GoTimedExit pidfile])
    (and_then (drain_tuple smtpServerTuple)
    (and_then (drain_tuple pop3ServerTuple)
              (Inr ([RetentionJoin] @ removePIDFile os_Remove pidfile @ [CloseLog]))))"

text \<open>
  \<^verbatim>\<open>main\<close> from the signal loop on. \<^verbatim>\<open>shutdownChan\<close> was made by
  \<^verbatim>\<open>make(chan bool)\<close>, so the loop starts with the channel open.
\<close>

datatype 's main_end =
    MainReturned "'s main_effect list"
  | MainPanicked panic "'s main_effect list"
  | MainWaiting "'s main_effect list"
  | MainStepNotReady

definition main_from_signalLoop ::
  "main_step list \<Rightarrow> (string \<Rightarrow> go_error option) \<Rightarrow> string \<Rightarrow> 's ServerTuple \<Rightarrow> 's ServerTuple \<Rightarrow>
     's main_end" where
  "main_from_signalLoop steps os_Remove pidfile smtpServerTuple pop3ServerTuple =
     (case signalLoop steps Open [] of
        (LoopLeft, c, tr) \<Rightarrow>
          (case main_shutdown os_Remove pidfile smtpServerTuple pop3ServerTuple of
             Inl p \<Rightarrow> MainPanicked p tr
           | Inr effs \<Rightarrow> MainReturned (tr @ effs))
      | (LoopWaiting, c, tr) \<Rightarrow> MainWaiting tr
      | (LoopPanicked p, c, tr) \<Rightarrow> MainPanicked p tr
      | (StepNotReady, c, tr) \<Rightarrow> MainStepNotReady)"

subsection \<open>The watchdog against the drain\<close>

text \<open>
  After the loop, \<^verbatim>\<open>main\<close> and the goroutine of \<^verbatim>\<open>timedExit\<close> run side by side, and
  the process ends when \<^verbatim>\<open>main\<close> returns or when \<^verbatim>\<open>os.Exit\<close> is called, whichever
  comes first. Time is counted in nanoseconds from the end of the signal loop. What the
  program does not decide is given from outside: how long the \<^verbatim>\<open>Drain\<close> of each server
  and the \<^verbatim>\<open>Join\<close> of the retention scanner block the caller (\<open>None\<close> when the call
  never returns). A sleep lasts as long as it is asked to (not at all for a duration that
  is not positive); every other effect takes no time.
\<close>

fun effect_time :: "('s \<Rightarrow> nat option) \<Rightarrow> nat option \<Rightarrow> 's main_effect \<Rightarrow> nat option" where
  "effect_time drain_time join_time (DrainServer s) = drain_time s"
| "effect_time drain_time join_time RetentionJoin = join_time"
| "effect_time drain_time join_time (SleepFor d) = Some (nat (sint d))"
| "effect_time drain_time join_time e = Some 0"

text \<open>
  A goroutine that runs the effects given, from the time given: when it calls
  \<^verbatim>\<open>os.Exit\<close>, and with which code; \<open>None\<close> when it ends without the call.
\<close>

fun exit_after :: "'s main_effect list \<Rightarrow> nat \<Rightarrow> (nat \<times> int) option" where
  "exit_after [] t = None"
| "exit_after (OsExit code # effs) t = Some (t, code)"
| "exit_after (SleepFor d # effs) t = exit_after effs (t + nat (sint d))"
| "exit_after (e # effs) t = exit_after effs t"

datatype process_end =
    MainReturnedAt nat
  | ForcedExitAt nat int
  | ProcessPanicked panic
  | NeverEnds

text \<open>
  \<^verbatim>\<open>main\<close> running its effects from the time \<open>now\<close>, with \<open>wd\<close> the time and the code
  of the exit that a watchdog already started will make. \<^verbatim>\<open>go timedExit(*pidfile)\<close>
  starts the watchdog at that moment. A call that would return only after the watchdog's
  exit is cut short by it; when both fall on the same instant \<^verbatim>\<open>main\<close> goes on.
\<close>

fun run_main ::
  "('s \<Rightarrow> nat option) \<Rightarrow> nat option \<Rightarrow> (string \<Rightarrow> go_error option) \<Rightarrow>
     (nat \<times> int) option \<Rightarrow> nat \<Rightarrow> 's main_effect list \<Rightarrow> process_end" where
  "run_main drain_time join_time os_Remove wd now [] = MainReturnedAt now"
| "run_main drain_time join_time os_Remove wd now (GoTimedExit pidfile # effs) =
     run_main drain_time join_time os_Remove
       (case wd of
          None \<Rightarrow> exit_after (timedExit os_Remove pidfile :: 's main_effect list) now
        | Some w \<Rightarrow> Some w)
       now effs"
| "run_main drain_time join_time os_Remove wd now (e # effs) =
     (case effect_time drain_time join_time e of
        None \<Rightarrow> (case wd of None \<Rightarrow> NeverEnds | Some (t, code) \<Rightarrow> ForcedExitAt t code)
      | Some d \<Rightarrow>
          (case wd of
             None \<Rightarrow> run_main drain_time join_time os_Remove wd (now + d) effs
           | Some (t, code) \<Rightarrow>
               if t < now + d then ForcedExitAt t code
               else run_main drain_time join_time os_Remove wd (now + d) effs))"

text \<open>The shutdown of \<^verbatim>\<open>main\<close> against the clock, from the end of the signal loop.\<close>

definition shutdown_outcome ::
  "('s \<Rightarrow> nat option) \<Rightarrow> nat option \<Rightarrow> (string \<Rightarrow> go_error option) \<Rightarrow> string \<Rightarrow>
     's ServerTuple \<Rightarrow> 's ServerTuple \<Rightarrow> process_end" where
  "shutdown_outcome drain_time join_time os_Remove pidfile smtpServerTuple pop3ServerTuple =
     (case main_shutdown os_Remove pidfile smtpServerTuple pop3ServerTuple of
        Inl p \<Rightarrow> ProcessPanicked p
      | Inr effs \<Rightarrow> run_main drain_time join_time os_Remove None 0 effs)"

section \<open>What the properties speak of\<close>




text \<open>The wait-group counts the running sessions.\<close>

definition sys_inv :: "('l, 'c) listener_sys \<Rightarrow> bool" where
  "sys_inv y = (wg (srv (frame y)) = int (length (sessions y)))"

text \<open>The members of a tuple that are not \<^verbatim>\<open>nil\<close>, \<open>v4\<close> before \<open>v6\<close>.\<close>

definition non_nil_members :: "'s ServerTuple \<Rightarrow> 's list" where
  "non_nil_members st =
     (case v4 st of None \<Rightarrow> [] | Some a \<Rightarrow> [a]) @ (case v6 st of None \<Rightarrow> [] | Some b \<Rightarrow> [b])"

text \<open>
  Two envelopes to run \<^verbatim>\<open>ParseDelivery\<close> on. The first is that of a message with a
  \<^verbatim>\<open>To\<close> and a \<^verbatim>\<open>Subject\<close> header and no \<^verbatim>\<open>From\<close> header: \<^verbatim>\<open>AddressList\<close> then
  answers no address and the error of the missing header. The second has a \<^verbatim>\<open>From\<close>
  and a \<^verbatim>\<open>Date\<close> header and a \<^verbatim>\<open>To\<close> header that does not parse.
\<close>

definition env_no_From :: Envelope where
  "env_no_From =
     \<lparr>AddressList = (\<lambda>key. if key = ''To''
                              then ([\<lparr>Name = [], Address = ''alice@example.com''\<rparr>], None)
                              else ([], Some ''mail: header not in message'')),
      GetHeader = (\<lambda>key. if key = ''Subject'' then ''hi'' else [])\<rparr>"

definition env_bad_To :: Envelope where
  "env_bad_To =
     \<lparr>AddressList = (\<lambda>key. if key = ''From''
                              then ([\<lparr>Name = ''Bob'', Address = ''bob@example.com''\<rparr>], None)
                              else ([], Some ''mail: missing @ in addr-spec'')),
      GetHeader = (\<lambda>key. if key = ''Date'' then ''Mon, 02 Jan 2006 15:04:05 -0700'' else [])\<rparr>"

text \<open>
  The time that calls made one after the other take together; \<open>None\<close> when one of them
  never returns.
\<close>

fun total_time :: "nat option list \<Rightarrow> nat option" where
  "total_time [] = Some 0"
| "total_time (None # ds) = None"
| "total_time (Some d # ds) = (case total_time ds of None \<Rightarrow> None | Some t \<Rightarrow> Some (d + t))"

section \<open>Lemmas\<close>

subsection \<open>The retry delay\<close>













lemma emergencyShutdown_closes:
  "emergencyShutdown c = Inr (Closed, if c = Open then [CloseGlobalShutdown] else [])"
  by (cases c) (simp_all add: emergencyShutdown_def close_chan_def)



subsection \<open>The wait-group counts the sessions\<close>

lemma serve_iter_cases:
  "serve_iter inp fr = Inr (st, fr', effs) \<Longrightarrow>
   wg (srv fr') = wg (srv fr) + int (length (started effs))"
  by (cases inp; cases "fst inp"; cases "globalShutdown (srv fr)")
     (auto simp: serve_iter_def Let_def emergencyShutdown_def close_chan_def split: if_splits)

lemma serve_iter_no_panic: "serve_iter inp fr \<noteq> Inl p"
  by (cases inp; cases "fst inp"; cases "globalShutdown (srv fr)")
     (auto simp: serve_iter_def Let_def emergencyShutdown_def close_chan_def split: if_splits)

lemma sys_step_inv:
  assumes "sys_inv y" and "sys_step e y = Some r"
  shows "\<exists>y'. r = Inr y' \<and> sys_inv y'"
proof (cases e)
  case (AcceptAnswers inp)
  show ?thesis
  proof (cases "serve_iter inp (frame y)")
    case (Inl p)
    then show ?thesis by (simp add: serve_iter_no_panic)
  next
    case (Inr t)
    obtain st fr' effs where t: "t = (st, fr', effs)" by (cases t)
    from serve_iter_cases [OF Inr [unfolded t]]
    have w: "wg (srv fr') = wg (srv (frame y)) + int (length (started effs))" .
    show ?thesis
      using assms AcceptAnswers Inr t w
      by (cases st) (auto simp: sys_inv_def split: if_splits)
  qed
next
  case (SessionExits i c)
  with assms have mem: "(i, c) \<in> set (sessions y)"
    by (auto split: if_splits)
  then have pos: "0 < length (sessions y)" by (cases "sessions y") auto
  have w: "wg (srv (frame y)) = int (length (sessions y))"
    using assms(1) by (simp add: sys_inv_def)
  have se: "session_exit (srv (frame y)) = Inr ((srv (frame y))\<lparr>wg := wg (srv (frame y)) - 1\<rparr>)"
    using w pos by (simp add: session_exit_def WaitGroup_Done_def)
  have r: "r = Inr (y\<lparr>frame := (frame y)\<lparr>srv := (srv (frame y))\<lparr>wg := wg (srv (frame y)) - 1\<rparr>\<rparr>,
                       sessions := remove1 (i, c) (sessions y)\<rparr>)"
    using assms(2) SessionExits mem se by simp
  from pos obtain n where n: "length (sessions y) = Suc n"
    by (cases "length (sessions y)") auto
  have "length (remove1 (i, c) (sessions y)) = n"
    using mem n by (simp add: length_remove1)
  then have len: "int (length (remove1 (i, c) (sessions y))) = int (length (sessions y)) - 1"
    by (simp add: n)
  show ?thesis
    unfolding r using w len by (simp add: sys_inv_def)
next
  case DrainCalled
  with assms show ?thesis by (auto simp: sys_inv_def split: if_splits)
next
  case DrainReturns
  with assms show ?thesis by (auto simp: sys_inv_def split: if_splits option.splits)
qed

lemma sys_run_inv:
  "sys_inv y \<Longrightarrow> sys_run evs y = Some r \<Longrightarrow> \<exists>y'. r = Inr y' \<and> sys_inv y'"
proof (induction evs arbitrary: y)
  case Nil
  then show ?case by auto
next
  case (Cons e evs)
  from Cons.prems(2) obtain r1 where r1: "sys_step e y = Some r1"
    by (cases "sys_step e y") auto
  from sys_step_inv [OF Cons.prems(1) r1] obtain y1 where y1: "r1 = Inr y1" "sys_inv y1"
    by blast
  with Cons.prems(2) r1 have "sys_run evs y1 = Some r" by simp
  from Cons.IH [OF y1(2) this] show ?case .
qed

lemma sys_init_inv: "sys_inv (sys_init addr ty c)"
  by (simp add: sys_inv_def sys_init_def New_def)

lemma drain_returns_enabled:
  "sys_inv y \<Longrightarrow> sys_step DrainReturns y \<noteq> None \<Longrightarrow> sessions y = []"
  by (auto simp: sys_inv_def Drain_def split: if_splits)


subsection \<open>The shutdown against the clock\<close>

lemma total_time_append:
  "total_time (xs @ ys) =
     (case total_time xs of
        None \<Rightarrow> None
      | Some a \<Rightarrow> (case total_time ys of None \<Rightarrow> None | Some b \<Rightarrow> Some (a + b)))"
proof (induction xs)
  case Nil
  then show ?case by (simp split: option.splits)
next
  case (Cons x xs)
  then show ?case by (cases x) (simp_all split: option.splits)
qed

lemma run_main_step:
  assumes "\<forall>p. e \<noteq> GoTimedExit p"
  shows "run_main dt jt rm wd now (e # effs) =
     (case effect_time dt jt e of
        None \<Rightarrow> (case wd of None \<Rightarrow> NeverEnds | Some (t, code) \<Rightarrow> ForcedExitAt t code)
      | Some d \<Rightarrow>
          (case wd of
             None \<Rightarrow> run_main dt jt rm wd (now + d) effs
           | Some (t, code) \<Rightarrow>
               if t < now + d then ForcedExitAt t code
               else run_main dt jt rm wd (now + d) effs))"
  using assms by (cases e) simp_all

lemma run_main_deadline:
  assumes "\<forall>e \<in> set effs. \<forall>p. e \<noteq> GoTimedExit p" and "now \<le> t"
  shows "run_main dt jt rm (Some (t, code)) now effs =
     (case total_time (map (effect_time dt jt) effs) of
        None \<Rightarrow> ForcedExitAt t code
      | Some d \<Rightarrow> if t < now + d then ForcedExitAt t code else MainReturnedAt (now + d))"
  using assms
proof (induction effs arbitrary: now)
  case Nil
  then show ?case by simp
next
  case (Cons e effs)
  from Cons.prems(1) have e: "\<forall>p. e \<noteq> GoTimedExit p" and rest: "\<forall>e \<in> set effs. \<forall>p. e \<noteq> GoTimedExit p"
    by simp_all
  note step = run_main_step [OF e, of dt jt rm "Some (t, code)" now effs]
  show ?case
  proof (cases "effect_time dt jt e")
    case None
    then show ?thesis by (simp add: step)
  next
    case (Some d)
    show ?thesis
    proof (cases "t < now + d")
      case True
      then show ?thesis
        by (simp add: step Some split: option.splits)
    next
      case False
      then have le: "now + d \<le> t" by simp
      from Cons.IH [OF rest le] False show ?thesis
        by (simp add: step Some add.assoc split: option.splits)
    qed
  qed
qed

lemma exit_after_timedExit:
  "exit_after (timedExit os_Remove pidfile :: 's main_effect list) now = Some (now + 15000000000, 0)"
proof -
  have s: "nat (sint (15 * Second :: duration)) = 15000000000"
    by (simp add: Second_def)
  have r: "exit_after (removePIDFile os_Remove pidfile @ [LogForcedExit, OsExit 0] :: 's main_effect list) t
        = Some (t, 0)" for t
    by (simp add: removePIDFile_def split: option.splits)
  show ?thesis
    unfolding timedExit_def by (simp only: append.simps exit_after.simps s r)
qed

lemma drain_tuple_members:
  "drain_tuple st = Inr (map DrainServer (non_nil_members st))"
  by (simp add: drain_tuple_def ServerTuple_Drain_def IServer_Drain_def and_then_def
      non_nil_members_def split: option.splits)

lemma main_shutdown_effects:
  "main_shutdown os_Remove pidfile smtpServerTuple pop3ServerTuple =
     Inr (GoTimedExit pidfile #
          map DrainServer (non_nil_members smtpServerTuple @ non_nil_members pop3ServerTuple) @
          RetentionJoin # removePIDFile os_Remove pidfile @ [CloseLog])"
  by (simp add: main_shutdown_def drain_tuple_members and_then_def)

lemma removePIDFile_times:
  "map (effect_time dt jt) (removePIDFile os_Remove pidfile) =
     replicate (length (removePIDFile os_Remove pidfile :: 's main_effect list)) (Some 0)"
  for dt :: "'s \<Rightarrow> nat option"
  by (simp add: removePIDFile_def split: option.splits)

lemma total_time_zeros: "total_time (replicate n (Some 0)) = Some 0"
  by (induction n) simp_all

lemma shutdown_times:
  "total_time (map (effect_time dt jt)
       (map DrainServer xs @ RetentionJoin # removePIDFile os_Remove pidfile @ [CloseLog])) =
   total_time (map dt xs @ [jt])"
proof -
  have a: "map (effect_time dt jt) (map DrainServer xs) = map dt xs"
    by (induction xs) simp_all
  have b: "total_time (map (effect_time dt jt) (RetentionJoin # removePIDFile os_Remove pidfile @ [CloseLog]))
        = total_time [jt]"
    by (cases jt) (simp_all add: removePIDFile_times total_time_append total_time_zeros)
  show ?thesis
    by (simp only: map_append a total_time_append [of "map dt xs"] b)
qed

lemma shutdown_no_second_watchdog:
  "\<forall>e \<in> set (map DrainServer xs @ RetentionJoin # removePIDFile os_Remove pidfile @ [CloseLog]).
     \<forall>p. e \<noteq> GoTimedExit p"
  by (auto simp: removePIDFile_def split: option.splits if_splits)

subsection \<open>One signal, then the closed channel\<close>

text \<open>
  The run in which the select takes one \<^verbatim>\<open>SIGINT\<close> or \<^verbatim>\<open>SIGTERM\<close> while the channel is
  open and then the receive from the closed channel: the loop is left with the context
  cancelled, and \<^verbatim>\<open>main\<close> drains and returns.
\<close>

lemma signal_then_shutdown:
  "sig = SIGINT \<or> sig = SIGTERM \<Longrightarrow>
   signalLoop (ReceiveSignal sig # ReceiveShutdown # steps) Open tr =
     (LoopLeft, Closed, tr @ [LogShutdownSignal sig, CloseShutdownChan, RootCancel]) \<and>
   main_from_signalLoop [ReceiveSignal sig, ReceiveShutdown] os_Remove pidfile
       smtpServerTuple pop3ServerTuple =
     MainReturned
       ([LogShutdownSignal sig, CloseShutdownChan, RootCancel, GoTimedExit pidfile] @
        map DrainServer (non_nil_members smtpServerTuple) @
        map DrainServer (non_nil_members pop3ServerTuple) @
        [RetentionJoin] @ removePIDFile os_Remove pidfile @ [CloseLog])"
  for smtpServerTuple pop3ServerTuple :: "'s ServerTuple" and tr :: "'s main_effect list"
proof -
  assume sig: "sig = SIGINT \<or> sig = SIGTERM"
  have loop: "signalLoop (ReceiveSignal sig # ReceiveShutdown # steps) Open tr =
     (LoopLeft, Closed, tr @ [LogShutdownSignal sig, CloseShutdownChan, RootCancel])"
    for steps and tr :: "'s main_effect list"
    using sig by (auto simp: close_chan_def)
  have dr: "drain_tuple st = Inr (map DrainServer (non_nil_members st))" for st :: "'s ServerTuple"
    by (simp add: drain_tuple_def ServerTuple_Drain_def IServer_Drain_def and_then_def
        non_nil_members_def split: option.splits)
  have sh: "main_shutdown os_Remove pidfile smtpServerTuple pop3ServerTuple =
      Inr ([GoTimedExit pidfile] @
        map DrainServer (non_nil_members smtpServerTuple) @
        map DrainServer (non_nil_members pop3ServerTuple) @
        [RetentionJoin] @ removePIDFile os_Remove pidfile @ [CloseLog])"
    by (simp add: main_shutdown_def dr and_then_def)
  show ?thesis
    by (simp add: main_from_signalLoop_def loop sh)
qed

section \<open>Properties of \<^verbatim>\<open>ParseDelivery\<close>\<close>

text \<open>
  Claim C1 says that \<^verbatim>\<open>ParseDelivery\<close> never fails a delivery: on malformed headers it
  would still return a \<^verbatim>\<open>Delivery\<close> with best-effort metadata rather than an error.
  The code returns the error of \<^verbatim>\<open>enmime.ReadEnvelope\<close> instead: here the envelope of
  a message cannot be read, and the result is that error and no delivery.
\<close>

theorem ParseDelivery_fails_counterexample:
  "ParseDelivery (\<lambda>r. (Inl ''malformed MIME header'', [])) 1700000000 ''Subject: hi'' ''alice''
     = Inl (ReturnedError ''malformed MIME header'')"
  by (simp add: ParseDelivery_def)

text \<open>
  Claim C1, as the code has it. When \<^verbatim>\<open>enmime.ReadEnvelope\<close> fails, \<^verbatim>\<open>ParseDelivery\<close>
  returns its error. When the envelope is read and \<^verbatim>\<open>AddressList("From")\<close> answers at
  least one address, \<^verbatim>\<open>ParseDelivery\<close> returns a delivery whatever errors the two
  \<^verbatim>\<open>AddressList\<close> calls report: its sender is the first \<^verbatim>\<open>From\<close> address, its
  recipients are whatever \<^verbatim>\<open>AddressList("To")\<close> answered, its date is the clock's, its
  subject is what \<^verbatim>\<open>GetHeader("Subject")\<close> answers, and its reader is the one that was
  read from.
\<close>

theorem ParseDelivery_result:
  "(ReadEnvelope reader = (Inl err, reader') \<longrightarrow>
      ParseDelivery ReadEnvelope now reader mailbox = Inl (ReturnedError err)) \<and>
   (ReadEnvelope reader = (Inr env, reader') \<and> AddressList env ''From'' = (f # fs, e) \<longrightarrow>
      ParseDelivery ReadEnvelope now reader mailbox =
        Inr \<lparr>Meta = \<lparr>Mailbox = mailbox, ID = [], From = f, To = fst (AddressList env ''To''),
                       Date = now, Subject = GetHeader env ''Subject'', Size = 0, Seen = False\<rparr>,
             Reader = reader'\<rparr>)"
  by (auto simp add: ParseDelivery_def index_def split: prod.splits)

theorem ParseDelivery_result_witness:
  "ParseDelivery (\<lambda>r. (Inl ''unexpected EOF'', [])) 1700000000 ''From'' ''bob''
     = Inl (ReturnedError ''unexpected EOF'') \<and>
   ParseDelivery (\<lambda>r. (Inr env_bad_To, [])) 1700000000 ''From: Bob <bob@example.com>'' ''bob''
     = Inr \<lparr>Meta = \<lparr>Mailbox = ''bob'', ID = [],
                    From = \<lparr>Name = ''Bob'', Address = ''bob@example.com''\<rparr>, To = [],
                    Date = 1700000000, Subject = [], Size = 0, Seen = False\<rparr>,
            Reader = []\<rparr>"
  using ParseDelivery_result [of "\<lambda>r. (Inl ''unexpected EOF'', [])" "''From''"
      "''unexpected EOF''" "[]" 1700000000 "''bob''"]
    ParseDelivery_result [of "\<lambda>r. (Inr env_bad_To, [])" "''From: Bob <bob@example.com>''"
      _ "[]" _ _ env_bad_To "\<lparr>Name = ''Bob'', Address = ''bob@example.com''\<rparr>" "[]" None]
  by (simp add: env_bad_To_def)

text \<open>
  Claim C5: every delivery that \<^verbatim>\<open>ParseDelivery\<close> returns carries the reading of the
  clock as its date, and the \<^verbatim>\<open>Date\<close> header of the message has no part in the result:
  when the envelope read answers any other value \<open>v\<close> for that header, the same delivery
  comes back.
\<close>

theorem ParseDelivery_Date_is_now:
  "ParseDelivery ReadEnvelope now reader mailbox = Inr d \<Longrightarrow>
   Date (Meta d) = now \<and>
   ParseDelivery
     (\<lambda>r. case ReadEnvelope r of
             (res, r') \<Rightarrow>
               (map_sum id (\<lambda>env. env\<lparr>GetHeader := (GetHeader env)(''Date'' := v)\<rparr>) res, r'))
     now reader mailbox = Inr d"
  by (cases "ReadEnvelope reader"; cases "fst (ReadEnvelope reader)")
     (auto simp add: ParseDelivery_def index_def split: prod.splits if_splits)

theorem ParseDelivery_Date_is_now_witness:
  "\<exists>d. ParseDelivery (\<lambda>r. (Inr env_bad_To, [])) 1700000000 ''From: Bob <bob@example.com>'' ''bob'' = Inr d \<and>
       GetHeader env_bad_To ''Date'' = ''Mon, 02 Jan 2006 15:04:05 -0700'' \<and>
       Date (Meta d) = 1700000000 \<and>
       ParseDelivery (\<lambda>r. (Inr (env_bad_To\<lparr>GetHeader := (GetHeader env_bad_To)(''Date'' := ''Tue, 03 Jan 2006 00:00:00 +0000'')\<rparr>), []))
         1700000000 ''From: Bob <bob@example.com>'' ''bob'' = Inr d"
proof -
  have r: "ParseDelivery (\<lambda>r. (Inr env_bad_To, [])) 1700000000 ''From: Bob <bob@example.com>'' ''bob''
     = Inr \<lparr>Meta = \<lparr>Mailbox = ''bob'', ID = [],
                    From = \<lparr>Name = ''Bob'', Address = ''bob@example.com''\<rparr>, To = [],
                    Date = 1700000000, Subject = [], Size = 0, Seen = False\<rparr>,
            Reader = []\<rparr>"
    by (simp add: ParseDelivery_def index_def env_bad_To_def)
  have h: "GetHeader env_bad_To ''Date'' = ''Mon, 02 Jan 2006 15:04:05 -0700''"
    by (simp add: env_bad_To_def)
  from ParseDelivery_Date_is_now [OF r, of "''Tue, 03 Jan 2006 00:00:00 +0000''"]
  have k: "ParseDelivery (\<lambda>r. (Inr (env_bad_To\<lparr>GetHeader := (GetHeader env_bad_To)(''Date'' := ''Tue, 03 Jan 2006 00:00:00 +0000'')\<rparr>), []))
         1700000000 ''From: Bob <bob@example.com>'' ''bob''
     = Inr \<lparr>Meta = \<lparr>Mailbox = ''bob'', ID = [],
                    From = \<lparr>Name = ''Bob'', Address = ''bob@example.com''\<rparr>, To = [],
                    Date = 1700000000, Subject = [], Size = 0, Seen = False\<rparr>,
            Reader = []\<rparr>"
    by simp
  from r h k show ?thesis by simp
qed

text \<open>
  Claim C9: when the envelope is read and \<^verbatim>\<open>AddressList("From")\<close> answers no address,
  \<^verbatim>\<open>ParseDelivery\<close> takes element 0 of an empty slice and panics; it returns neither
  a delivery nor an error. The message with no \<^verbatim>\<open>From\<close> header is such an input.
\<close>

theorem ParseDelivery_empty_From_panics:
  "ReadEnvelope reader = (Inr env, reader') \<Longrightarrow> fst (AddressList env ''From'') = [] \<Longrightarrow>
   ParseDelivery ReadEnvelope now reader mailbox = Inl (RuntimePanic IndexOutOfRange)"
  by (auto simp add: ParseDelivery_def index_def split: prod.splits)

theorem ParseDelivery_empty_From_panics_witness:
  "ParseDelivery (\<lambda>r. (Inr env_no_From, [])) 1700000000 ''To: alice@example.com'' ''alice''
     = Inl (RuntimePanic IndexOutOfRange)"
  using ParseDelivery_empty_From_panics [of "\<lambda>r. (Inr env_no_From, [])" "''To: alice@example.com''" env_no_From "[]" 1700000000 "''alice''"]
  by (simp add: env_no_From_def)

section \<open>Properties of \<^verbatim>\<open>ServerTuple.Drain\<close>\<close>

text \<open>
  Claim C10: for every tuple, whichever of its members are \<^verbatim>\<open>nil\<close>,
  \<^verbatim>\<open>ServerTuple.Drain\<close> does not panic and calls \<^verbatim>\<open>Drain\<close> once on each member
  that is not \<^verbatim>\<open>nil\<close>, on \<open>v4\<close> before \<open>v6\<close>.
\<close>

theorem ServerTuple_Drain_total:
  "ServerTuple_Drain st = Inr (non_nil_members st) \<and>
   non_nil_members \<lparr>v4 = None, v6 = None\<rparr> = [] \<and>
   non_nil_members \<lparr>v4 = Some a, v6 = None\<rparr> = [a] \<and>
   non_nil_members \<lparr>v4 = None, v6 = Some b\<rparr> = [b] \<and>
   non_nil_members \<lparr>v4 = Some a, v6 = Some b\<rparr> = [a, b]"
  by (simp add: ServerTuple_Drain_def IServer_Drain_def and_then_def non_nil_members_def
      split: option.splits)

section \<open>Properties of the POP3 listener\<close>


text \<open>
  Claim C4: on an accept error that is not temporary, \<^verbatim>\<open>serve\<close> returns. With the
  context cancelled it leaves its variables and the server as they were and has no
  effect; otherwise it runs the emergency shutdown, after which the shutdown channel is
  closed (the one effect is the close, when the channel was still open). When resolving
  the address or binding the listener fails, \<^verbatim>\<open>Start\<close> logs the error, runs the
  emergency shutdown and returns.
\<close>

theorem permanent_error_shutdown:
  "\<not> is_temporary err \<Longrightarrow>
   serve_loop ((Inl err, True) # inps) fr tr = Inr (Returned, fr, tr) \<and>
   serve_loop ((Inl err, False) # inps) fr tr =
     Inr (Returned, fr\<lparr>srv := (srv fr)\<lparr>globalShutdown := Closed\<rparr>\<rparr>,
          tr @ (if globalShutdown (srv fr) = Open then [CloseGlobalShutdown] else [])) \<and>
   (ResolveTCPAddr (addressType s) (address s) = Inl e \<longrightarrow>
      Start ResolveTCPAddr ListenTCP s =
        Inr (StartReturned, s\<lparr>globalShutdown := Closed\<rparr>,
             LogResolveFailed e #
             (if globalShutdown s = Open then [CloseGlobalShutdown] else []))) \<and>
   (ResolveTCPAddr (addressType s) (address s) = Inr a \<and> ListenTCP a = Inl e \<longrightarrow>
      Start ResolveTCPAddr ListenTCP s =
        Inr (StartReturned, s\<lparr>listener := None, globalShutdown := Closed\<rparr>,
             [LogListening, LogListenFailed e] @
             (if globalShutdown s = Open then [CloseGlobalShutdown] else [])))"
  by (simp add: serve_iter_def Start_def emergencyShutdown_closes)

theorem permanent_error_shutdown_witness:
  "serve_loop [(Inl PlainError, True)]
      \<lparr>tempDelay = 0, sid = 1, srv = New ''0.0.0.0:1100'' ''tcp4'' Open\<rparr> ([] :: unit pop3_effect list) =
     Inr (Returned, \<lparr>tempDelay = 0, sid = 1, srv = (New ''0.0.0.0:1100'' ''tcp4'' Open :: unit Server)\<rparr>, []) \<and>
   serve_loop [(Inl PlainError, False)]
      \<lparr>tempDelay = 0, sid = 1, srv = New ''0.0.0.0:1100'' ''tcp4'' Open\<rparr> ([] :: unit pop3_effect list) =
     Inr (Returned, \<lparr>tempDelay = 0, sid = 1, srv = (New ''0.0.0.0:1100'' ''tcp4'' Closed :: unit Server)\<rparr>,
          [CloseGlobalShutdown]) \<and>
   Start (\<lambda>t a. (Inl ''unknown port'' :: go_error + unit)) (\<lambda>a. (Inr () :: go_error + unit))
      (New ''0.0.0.0:pop'' ''tcp4'' Open) =
     Inr (StartReturned, New ''0.0.0.0:pop'' ''tcp4'' Closed,
          [LogResolveFailed ''unknown port'', CloseGlobalShutdown :: unit pop3_effect]) \<and>
   Start (\<lambda>t a. (Inr () :: go_error + unit)) (\<lambda>a. (Inl ''address already in use'' :: go_error + unit))
      (New ''0.0.0.0:1100'' ''tcp4'' Open) =
     Inr (StartReturned, New ''0.0.0.0:1100'' ''tcp4'' Closed,
          [LogListening, LogListenFailed ''address already in use'', CloseGlobalShutdown :: unit pop3_effect])"
  using
    permanent_error_shutdown [where err = PlainError and inps = "[]"
      and fr = "\<lparr>tempDelay = 0, sid = 1, srv = (New ''0.0.0.0:1100'' ''tcp4'' Open :: unit Server)\<rparr>"
      and tr = "[] :: unit pop3_effect list"
      and ResolveTCPAddr = "\<lambda>t a. (Inl ''unknown port'' :: go_error + unit)"
      and ListenTCP = "\<lambda>a. (Inr () :: go_error + unit)"
      and s = "New ''0.0.0.0:pop'' ''tcp4'' Open :: unit Server"
      and e = "''unknown port''" and a = "()"]
    permanent_error_shutdown [where err = PlainError and inps = "[]"
      and fr = "\<lparr>tempDelay = 0, sid = 1, srv = (New ''0.0.0.0:1100'' ''tcp4'' Open :: unit Server)\<rparr>"
      and tr = "[] :: unit pop3_effect list"
      and ResolveTCPAddr = "\<lambda>t a. (Inr () :: go_error + unit)"
      and ListenTCP = "\<lambda>a. (Inl ''address already in use'' :: go_error + unit)"
      and s = "New ''0.0.0.0:1100'' ''tcp4'' Open :: unit Server"
      and e = "''address already in use''" and a = "()"]
  by (simp add: New_def serve_iter_def Start_def emergencyShutdown_def close_chan_def)

text \<open>
  Claim C6: a pass of the accept loop that accepts a connection adds one to the
  wait-group before it starts the session goroutine. In every state that the listener,
  its sessions and a call of \<^verbatim>\<open>Drain\<close> can reach from a fresh server, nothing has
  panicked, the wait-group counts the running sessions, \<^verbatim>\<open>Drain\<close> is blocked exactly
  when a session is running, and so \<^verbatim>\<open>Drain\<close> cannot return while one is.
\<close>

theorem Drain_waits_for_sessions:
  "sys_run evs (sys_init addr addrType c) = Some r \<Longrightarrow>
   serve_iter (Inr conn, b) fr =
     Inr (Continue, fr\<lparr>tempDelay := 0, srv := (srv fr)\<lparr>wg := wg (srv fr) + 1\<rparr>\<rparr>,
          [WgAdd 1, GoStartSession (sid fr) conn]) \<and>
   (\<exists>y. r = Inr y \<and>
        wg (srv (frame y)) = int (length (sessions y)) \<and>
        ((Drain (srv (frame y)) :: 'c pop3_effect list option) = None \<longleftrightarrow> sessions y \<noteq> []) \<and>
        (sessions y \<noteq> [] \<longrightarrow> sys_step DrainReturns y = None))"
  for r :: "panic + ('l, 'c) listener_sys"
proof -
  assume run: "sys_run evs (sys_init addr addrType c) = Some r"
  from sys_run_inv [OF sys_init_inv run] obtain y where y: "r = Inr y" "sys_inv y"
    by blast
  have w: "wg (srv (frame y)) = int (length (sessions y))"
    using y(2) by (simp add: sys_inv_def)
  have d: "(Drain (srv (frame y)) :: 'c pop3_effect list option) = None \<longleftrightarrow> sessions y \<noteq> []"
    using w by (simp add: Drain_def)
  have n: "sessions y \<noteq> [] \<longrightarrow> sys_step DrainReturns y = None"
    using d by (auto split: option.splits)
  have it: "serve_iter (Inr conn, b) fr =
     Inr (Continue, fr\<lparr>tempDelay := 0, srv := (srv fr)\<lparr>wg := wg (srv fr) + 1\<rparr>\<rparr>,
          [WgAdd 1, GoStartSession (sid fr) conn])"
    by (simp add: serve_iter_def)
  from y(1) w d n
  have "r = Inr y \<and>
        wg (srv (frame y)) = int (length (sessions y)) \<and>
        ((Drain (srv (frame y)) :: 'c pop3_effect list option) = None \<longleftrightarrow> sessions y \<noteq> []) \<and>
        (sessions y \<noteq> [] \<longrightarrow> sys_step DrainReturns y = None)"
    by (intro conjI)
  then have "\<exists>y. r = Inr y \<and>
        wg (srv (frame y)) = int (length (sessions y)) \<and>
        ((Drain (srv (frame y)) :: 'c pop3_effect list option) = None \<longleftrightarrow> sessions y \<noteq> []) \<and>
        (sessions y \<noteq> [] \<longrightarrow> sys_step DrainReturns y = None)"
    by (rule exI)
  with it show ?thesis by (rule conjI)
qed

theorem Drain_waits_for_sessions_witness:
  "(\<exists>y. sys_run [AcceptAnswers (Inr ''conn-a'', False), DrainCalled]
          (sys_init ''0.0.0.0:1100'' ''tcp4'' Open) = Some (Inr (y :: (unit, string) listener_sys)) \<and>
        sessions y = [(1, ''conn-a'')] \<and>
        wg (srv (frame y)) = 1 \<and>
        sys_step DrainReturns y = None) \<and>
   (\<exists>y. sys_run [AcceptAnswers (Inr ''conn-a'', False), DrainCalled, SessionExits 1 ''conn-a'',
                 DrainReturns]
          (sys_init ''0.0.0.0:1100'' ''tcp4'' Open) = Some (Inr (y :: (unit, string) listener_sys)) \<and>
        sessions y = [] \<and> drain y = DrainReturned)"
proof -
  let ?init = "sys_init ''0.0.0.0:1100'' ''tcp4'' Open :: (unit, string) listener_sys"
  let ?s1 = "\<lparr>address = ''0.0.0.0:1100'', addressType = ''tcp4'', listener = None,
              globalShutdown = Open, wg = 1\<rparr> :: unit Server"
  let ?s0 = "\<lparr>address = ''0.0.0.0:1100'', addressType = ''tcp4'', listener = None,
              globalShutdown = Open, wg = 0\<rparr> :: unit Server"
  let ?y1 = "\<lparr>frame = \<lparr>tempDelay = 0, sid = 2, srv = ?s1\<rparr>,
              serving = True, sessions = [(1, ''conn-a'')], drain = DrainNotCalled\<rparr>
            :: (unit, string) listener_sys"
  let ?y2 = "\<lparr>frame = \<lparr>tempDelay = 0, sid = 2, srv = ?s1\<rparr>,
              serving = True, sessions = [(1, ''conn-a'')], drain = DrainWaiting\<rparr>
            :: (unit, string) listener_sys"
  let ?y3 = "\<lparr>frame = \<lparr>tempDelay = 0, sid = 2, srv = ?s0\<rparr>,
              serving = True, sessions = [], drain = DrainWaiting\<rparr>
            :: (unit, string) listener_sys"
  let ?y4 = "\<lparr>frame = \<lparr>tempDelay = 0, sid = 2, srv = ?s0\<rparr>,
              serving = True, sessions = [], drain = DrainReturned\<rparr>
            :: (unit, string) listener_sys"
  have e1: "sys_step (AcceptAnswers (Inr ''conn-a'', False)) ?init = Some (Inr ?y1)"
    by (simp add: sys_init_def New_def serve_iter_def)
  have e2: "sys_step DrainCalled ?y1 = Some (Inr ?y2)"
    by simp
  have e3: "sys_step (SessionExits 1 ''conn-a'') ?y2 = Some (Inr ?y3)"
    by (simp add: session_exit_def WaitGroup_Done_def)
  have e4: "sys_step DrainReturns ?y3 = Some (Inr ?y4)"
    by (simp add: Drain_def)
  have run2: "sys_run [AcceptAnswers (Inr ''conn-a'', False), DrainCalled] ?init = Some (Inr ?y2)"
    by (simp only: sys_run.simps e1 e2 option.case sum.case)
  have run4: "sys_run [AcceptAnswers (Inr ''conn-a'', False), DrainCalled, SessionExits 1 ''conn-a'',
                 DrainReturns] ?init = Some (Inr ?y4)"
    by (simp only: sys_run.simps e1 e2 e3 e4 option.case sum.case)
  from Drain_waits_for_sessions [where conn = "''conn-b''" and b = False and fr = "frame ?y2", OF run2]
  have blocked: "sys_step DrainReturns ?y2 = None"
    by simp
  have a: "sys_run [AcceptAnswers (Inr ''conn-a'', False), DrainCalled] ?init = Some (Inr ?y2) \<and>
        sessions ?y2 = [(1, ''conn-a'')] \<and> wg (srv (frame ?y2)) = 1 \<and>
        sys_step DrainReturns ?y2 = None"
    using run2 blocked by simp
  have b: "sys_run [AcceptAnswers (Inr ''conn-a'', False), DrainCalled, SessionExits 1 ''conn-a'',
                 DrainReturns] ?init = Some (Inr ?y4) \<and>
        sessions ?y4 = [] \<and> drain ?y4 = DrainReturned"
    using run4 by simp
  from a have A: "\<exists>y. sys_run [AcceptAnswers (Inr ''conn-a'', False), DrainCalled]
          (sys_init ''0.0.0.0:1100'' ''tcp4'' Open) = Some (Inr (y :: (unit, string) listener_sys)) \<and>
        sessions y = [(1, ''conn-a'')] \<and>
        wg (srv (frame y)) = 1 \<and>
        sys_step DrainReturns y = None"
    by (rule exI [where x = ?y2])
  from b have B: "\<exists>y. sys_run [AcceptAnswers (Inr ''conn-a'', False), DrainCalled, SessionExits 1 ''conn-a'',
                 DrainReturns]
          (sys_init ''0.0.0.0:1100'' ''tcp4'' Open) = Some (Inr (y :: (unit, string) listener_sys)) \<and>
        sessions y = [] \<and> drain y = DrainReturned"
    by (rule exI [where x = ?y4])
  from A B show ?thesis by (rule conjI)
qed

section \<open>Properties of the signal loop and the shutdown\<close>

text \<open>
  Claim C2 says that every close of the shutdown channel is guarded, so that no run
  closes the channel twice. \<^verbatim>\<open>emergencyShutdown\<close> is guarded: on a closed channel it
  does nothing. The two closes of the signal loop are not. When the select takes a second
  signal before it takes the receive from the closed channel, or takes a signal after a
  listener's emergency shutdown has closed the channel, the loop closes a closed channel
  and the process panics.
\<close>

theorem signalLoop_closes_closed_channel:
  "signalLoop [ReceiveSignal SIGINT, ReceiveSignal SIGTERM] Open [] =
     (LoopPanicked CloseOfClosedChannel, Closed,
      [LogShutdownSignal SIGINT, CloseShutdownChan, LogShutdownSignal SIGTERM]) \<and>
   signalLoop [ListenerEmergencyShutdown, ReceiveSignal SIGINT] Open [] =
     (LoopPanicked CloseOfClosedChannel, Closed, [LogShutdownSignal SIGINT]) \<and>
   emergencyShutdown Closed = Inr (Closed, [])"
  by (simp add: close_chan_def emergencyShutdown_def)

text \<open>
  Claim C8 says that receiving \<^verbatim>\<open>SIGINT\<close> or \<^verbatim>\<open>SIGTERM\<close> closes the shutdown channel,
  which cancels the root context and leaves the loop, after which the listeners are
  drained. The code does so only for a signal that finds the channel open. When the select
  takes a second signal before the receive from the closed channel, or takes a signal
  after a listener's emergency shutdown has closed the channel, \<^verbatim>\<open>main\<close> panics on the
  bare \<^verbatim>\<open>close(shutdownChan)\<close>: the context is not cancelled and nothing is drained.
\<close>

theorem signal_after_close_panics:
  "main_from_signalLoop [ReceiveSignal SIGINT, ReceiveSignal SIGTERM, ReceiveShutdown]
       os_Remove pidfile smtpServerTuple pop3ServerTuple =
     MainPanicked CloseOfClosedChannel
       [LogShutdownSignal SIGINT, CloseShutdownChan, LogShutdownSignal SIGTERM] \<and>
   main_from_signalLoop [ReceiveSignal SIGTERM, ReceiveSignal SIGINT, ReceiveShutdown]
       os_Remove pidfile smtpServerTuple pop3ServerTuple =
     MainPanicked CloseOfClosedChannel
       [LogShutdownSignal SIGTERM, CloseShutdownChan, LogShutdownSignal SIGINT] \<and>
   main_from_signalLoop (ListenerEmergencyShutdown # ReceiveSignal SIGINT # steps)
       os_Remove pidfile smtpServerTuple pop3ServerTuple =
     MainPanicked CloseOfClosedChannel [LogShutdownSignal SIGINT] \<and>
   main_from_signalLoop (ListenerEmergencyShutdown # ReceiveSignal SIGTERM # steps)
       os_Remove pidfile smtpServerTuple pop3ServerTuple =
     MainPanicked CloseOfClosedChannel [LogShutdownSignal SIGTERM]"
  by (simp add: main_from_signalLoop_def close_chan_def emergencyShutdown_def)

text \<open>
  Claim C7: \<^verbatim>\<open>timedExit\<close> sleeps 15 seconds, a constant that no argument changes, and
  then calls \<^verbatim>\<open>os.Exit(0)\<close> whatever happened meanwhile. \<^verbatim>\<open>main\<close> starts it before
  the first drain. So for every pair of server tuples and however long each \<^verbatim>\<open>Drain\<close>
  and the \<^verbatim>\<open>Join\<close> block: when together they take more than 15 seconds, or one of them
  never returns, the process is ended by the watchdog at 15 seconds; otherwise \<^verbatim>\<open>main\<close>
  returns when they are done.
\<close>

theorem watchdog_forces_exit:
  "(timedExit os_Remove pidfile :: 's main_effect list) =
     SleepFor (15 * Second) # removePIDFile os_Remove pidfile @ [LogForcedExit, OsExit 0] \<and>
   sint (15 * Second :: duration) = 15000000000 \<and>
   shutdown_outcome drain_time join_time os_Remove pidfile smtpServerTuple pop3ServerTuple =
     (case total_time (map drain_time (non_nil_members smtpServerTuple @
                                        non_nil_members pop3ServerTuple) @ [join_time]) of
        None \<Rightarrow> ForcedExitAt 15000000000 0
      | Some t \<Rightarrow> if 15000000000 < t then ForcedExitAt 15000000000 0 else MainReturnedAt t)"
  for smtpServerTuple pop3ServerTuple :: "'s ServerTuple"
proof -
  let ?xs = "non_nil_members smtpServerTuple @ non_nil_members pop3ServerTuple"
  let ?rest = "map DrainServer ?xs @ RetentionJoin # removePIDFile os_Remove pidfile @ [CloseLog]"
  have t: "(timedExit os_Remove pidfile :: 's main_effect list) =
     SleepFor (15 * Second) # removePIDFile os_Remove pidfile @ [LogForcedExit, OsExit 0]"
    by (simp add: timedExit_def)
  have s: "sint (15 * Second :: duration) = 15000000000"
    by (simp add: Second_def)
  have wd: "exit_after (timedExit os_Remove pidfile :: 's main_effect list) 0 = Some (15000000000, 0)"
    using exit_after_timedExit [of os_Remove pidfile 0] by simp
  have "shutdown_outcome drain_time join_time os_Remove pidfile smtpServerTuple pop3ServerTuple =
      run_main drain_time join_time os_Remove (Some (15000000000, 0)) 0 ?rest"
    by (simp add: shutdown_outcome_def main_shutdown_effects wd)
  also have "\<dots> =
     (case total_time (map (effect_time drain_time join_time) ?rest) of
        None \<Rightarrow> ForcedExitAt 15000000000 0
      | Some d \<Rightarrow> if 15000000000 < 0 + d then ForcedExitAt 15000000000 0 else MainReturnedAt (0 + d))"
    by (rule run_main_deadline [OF shutdown_no_second_watchdog]) simp
  also have "\<dots> =
     (case total_time (map drain_time ?xs @ [join_time]) of
        None \<Rightarrow> ForcedExitAt 15000000000 0
      | Some t \<Rightarrow> if 15000000000 < t then ForcedExitAt 15000000000 0 else MainReturnedAt t)"
    by (simp only: shutdown_times add_0)
  finally have o: "shutdown_outcome drain_time join_time os_Remove pidfile smtpServerTuple pop3ServerTuple =
     (case total_time (map drain_time ?xs @ [join_time]) of
        None \<Rightarrow> ForcedExitAt 15000000000 0
      | Some t \<Rightarrow> if 15000000000 < t then ForcedExitAt 15000000000 0 else MainReturnedAt t)" .
  from t s o show ?thesis by (intro conjI)
qed

theorem watchdog_forces_exit_witness:
  "shutdown_outcome (\<lambda>s. if s = ''pop4'' then Some 20000000000 else Some 1000000000) (Some 0)
       (\<lambda>p. None) ''/run/inbucket.pid''
       \<lparr>v4 = Some ''smtp4'', v6 = None\<rparr> \<lparr>v4 = Some ''pop4'', v6 = Some ''pop6''\<rparr> =
     ForcedExitAt 15000000000 0 \<and>
   shutdown_outcome (\<lambda>s. if s = ''pop4'' then None else Some 1000000000) (Some 0)
       (\<lambda>p. None) ''/run/inbucket.pid''
       \<lparr>v4 = None, v6 = None\<rparr> \<lparr>v4 = Some ''pop4'', v6 = None\<rparr> =
     ForcedExitAt 15000000000 0 \<and>
   shutdown_outcome (\<lambda>s. Some 1000000000) (Some 500000000)
       (\<lambda>p. None) ''/run/inbucket.pid''
       \<lparr>v4 = Some ''smtp4'', v6 = None\<rparr> \<lparr>v4 = Some ''pop4'', v6 = Some ''pop6''\<rparr> =
     MainReturnedAt 3500000000"
  using
    watchdog_forces_exit [where drain_time = "\<lambda>s. if s = ''pop4'' then Some 20000000000 else Some 1000000000"
      and join_time = "Some 0" and os_Remove = "\<lambda>p. None" and pidfile = "''/run/inbucket.pid''"
      and smtpServerTuple = "\<lparr>v4 = Some ''smtp4'', v6 = None\<rparr>"
      and pop3ServerTuple = "\<lparr>v4 = Some ''pop4'', v6 = Some ''pop6''\<rparr>"]
    watchdog_forces_exit [where drain_time = "\<lambda>s. if s = ''pop4'' then None else Some 1000000000"
      and join_time = "Some 0" and os_Remove = "\<lambda>p. None" and pidfile = "''/run/inbucket.pid''"
      and smtpServerTuple = "\<lparr>v4 = None, v6 = None\<rparr>"
      and pop3ServerTuple = "\<lparr>v4 = Some ''pop4'', v6 = None\<rparr>"]
    watchdog_forces_exit [where drain_time = "\<lambda>s. Some 1000000000"
      and join_time = "Some 500000000" and os_Remove = "\<lambda>p. None" and pidfile = "''/run/inbucket.pid''"
      and smtpServerTuple = "\<lparr>v4 = Some ''smtp4'', v6 = None\<rparr>"
      and pop3ServerTuple = "\<lparr>v4 = Some ''pop4'', v6 = Some ''pop6''\<rparr>"]
  by (simp add: non_nil_members_def)

end
